theory Spec2Isabelle
  imports Complex_Main
begin

section \<open>Display utilities (utils/mapUtils.ts)\<close>

subsection \<open>Strings and numbers as JavaScript renders them\<close>



text \<open>
  A template literal renders an integer-valued number in decimal, with a leading minus
  sign when it is negative.
\<close>

definition digit_char :: "nat \<Rightarrow> char" where
  "digit_char d = char_of (48 + d)"

fun show_nat :: "nat \<Rightarrow> string" where
  "show_nat n = (if n < 10 then [digit_char n] else show_nat (n div 10) @ [digit_char (n mod 10)])"

declare show_nat.simps [simp del]

definition show_int :: "int \<Rightarrow> string" where
  "show_int i = (if i < 0 then CHR ''-'' # show_nat (nat (- i)) else show_nat (nat i))"

text \<open>
  JavaScript numbers are modelled as reals. \<^verbatim>\<open>Math.floor\<close> is the floor,
  \<^verbatim>\<open>Math.round\<close> rounds to the nearest integer with halves going up, and the
  remainder operator \<^verbatim>\<open>%\<close> truncates the quotient towards zero, so that the result
  has the sign of the dividend.
\<close>

definition Math_floor :: "real \<Rightarrow> int" where
  "Math_floor x = \<lfloor>x\<rfloor>"

definition Math_round :: "real \<Rightarrow> int" where
  "Math_round x = \<lfloor>x + 1 / 2\<rfloor>"

definition js_trunc :: "real \<Rightarrow> int" where
  "js_trunc x = (if x < 0 then \<lceil>x\<rceil> else \<lfloor>x\<rfloor>)"

definition js_rem :: "real \<Rightarrow> real \<Rightarrow> real" where
  "js_rem x y = x - y * real_of_int (js_trunc (x / y))"

text \<open>
  \<^verbatim>\<open>Number.prototype.toFixed\<close>: the decimal with \<open>d\<close> fraction digits nearest to the
  number, the larger one on a tie, after the sign.
\<close>

definition pad_zeros :: "nat \<Rightarrow> string \<Rightarrow> string" where
  "pad_zeros d s = replicate (d - length s) CHR ''0'' @ s"

definition toFixed_nonneg :: "nat \<Rightarrow> real \<Rightarrow> string" where
  "toFixed_nonneg d x =
     (let n = nat \<lfloor>x * 10 ^ d + 1 / 2\<rfloor>
      in show_nat (n div 10 ^ d) @ (if d = 0 then [] else CHR ''.'' # pad_zeros d (show_nat (n mod 10 ^ d))))"

definition toFixed :: "nat \<Rightarrow> real \<Rightarrow> string" where
  "toFixed d x = (if x < 0 then CHR ''-'' # toFixed_nonneg d (- x) else toFixed_nonneg d x)"

subsection \<open>getResourceStatusColor\<close>


subsection \<open>formatETA\<close>

definition formatETA :: "real \<Rightarrow> string" where
  "formatETA minutes =
     (if minutes < 60 then show_int (Math_round minutes) @ ''m''
      else
        let hours = Math_floor (minutes / 60);
            mins = Math_round (js_rem minutes 60)
        in show_int hours @ ''h '' @ show_int mins @ ''m'')"

text \<open>The minutes component that \<open>formatETA\<close> renders on its second branch.\<close>

definition formatETA_mins :: "real \<Rightarrow> int" where
  "formatETA_mins minutes = Math_round (js_rem minutes 60)"

section \<open>Weather cache (components/Dashboard/WeatherWidget.tsx)\<close>

text \<open>
  The cache entry of the widget, \<^verbatim>\<open>interface CachedWeather\<close>. The weather data is
  opaque here; timestamps are the milliseconds of \<^verbatim>\<open>Date.now()\<close>.
\<close>

record 'w CachedWeather =
  cache_data :: 'w
  cache_timestamp :: int
  cache_city :: string

definition CACHE_DURATION :: int where
  "CACHE_DURATION = 5 * 60 * 1000"

text \<open>
  \<open>getCachedWeather\<close> reads the entry under \<^verbatim>\<open>CACHE_KEY\<close> (\<open>None\<close> when
  \<^verbatim>\<open>localStorage.getItem\<close> gives \<^verbatim>\<open>null\<close>), skips an empty string (it is falsy), and
  parses it. \<^verbatim>\<open>JSON.parse\<close> is a parameter: \<open>None\<close> is the exception that the
  \<^verbatim>\<open>catch\<close> block swallows. The result is the returned value (\<open>None\<close> for
  \<^verbatim>\<open>null\<close>) and the timestamp handed to \<^verbatim>\<open>setLastUpdated\<close>, when it is called.
\<close>

definition getCachedWeather ::
  "(string \<Rightarrow> 'w CachedWeather option) \<Rightarrow> string option \<Rightarrow> string \<Rightarrow> int \<Rightarrow> 'w option \<times> int option"
where
  "getCachedWeather JSON_parse stored city now =
     (case stored of
        None \<Rightarrow> (None, None)
      | Some cached \<Rightarrow>
          if cached = [] then (None, None)
          else
            (case JSON_parse cached of
               None \<Rightarrow> (None, None)
             | Some parsedCache \<Rightarrow>
                 if cache_city parsedCache = city
                    \<and> now - cache_timestamp parsedCache < CACHE_DURATION
                 then (Some (cache_data parsedCache), Some (cache_timestamp parsedCache))
                 else (None, None)))"

section \<open>The API types and the client pages\<close>

subsection \<open>Entities (the interfaces of lib/api)\<close>

record Location =
  lat :: real
  lng :: real

record Resource =
  r_id :: string
  r_type :: string
  r_location :: Location
  r_capacity :: int
  r_status :: string
  r_specialization :: "string list"
  r_speed_kmh :: real

text \<open>
  \<open>required_resources\<close> is a \<^verbatim>\<open>Record<string, number>\<close>: an association list, in
  insertion order. The optional \<open>status\<close> of a zone is an option.
\<close>

record DisasterZone =
  z_id :: string
  z_type :: string
  z_severity :: int
  z_location :: Location
  z_affected_population :: int
  z_vulnerability_score :: real
  z_required_resources :: "(string \<times> nat) list"
  z_status :: "string option"

record Allocation =
  resource_id :: string
  zone_id :: string
  eta_minutes :: real
  distance_km :: real
  explanation :: string

record AllocationPlan =
  allocations :: "Allocation list"
  unallocated_resources :: "string list"
  unserved_zones :: "string list"
  total_score :: real
  computation_time_ms :: real
  ai_rationale :: "string option"

subsection \<open>The Registry behind the API\<close>

text \<open>
  Modelled from the spec: the Resource and Zone Registry and its delete operations
  (sections 4.2, 6 and 7). The server code is not among the sources; the pages only call it.
  A delete of a missing id is reported as \<open>EntityNotFound\<close>; a bulk delete goes on with
  the other ids and returns the number it deleted.
\<close>

record Registry =
  reg_resources :: "Resource list"
  reg_zones :: "DisasterZone list"

datatype api_error =
  EntityNotFound | InvalidResourceConfig | StaleAllocation | ExternalServiceUnavailable

text \<open>Modelled from the spec: \<open>deleteResource(id)\<close> of the Registry, whose code is missing.\<close>

definition registry_deleteResource :: "string \<Rightarrow> Registry \<Rightarrow> api_error + Registry" where
  "registry_deleteResource rid reg =
     (if list_ex (\<lambda>r. r_id r = rid) (reg_resources reg)
      then Inr (reg\<lparr>reg_resources := filter (\<lambda>r. r_id r \<noteq> rid) (reg_resources reg)\<rparr>)
      else Inl EntityNotFound)"

text \<open>Modelled from the spec: \<open>deleteZone(id)\<close> of the Registry, whose code is missing.\<close>

definition registry_deleteZone :: "string \<Rightarrow> Registry \<Rightarrow> api_error + Registry" where
  "registry_deleteZone zid reg =
     (if list_ex (\<lambda>z. z_id z = zid) (reg_zones reg)
      then Inr (reg\<lparr>reg_zones := filter (\<lambda>z. z_id z \<noteq> zid) (reg_zones reg)\<rparr>)
      else Inl EntityNotFound)"

text \<open>
  Modelled from the spec: \<open>bulkDeleteResources(ids)\<close> of the Registry, whose code is
  missing; it returns the \<open>deleted_count\<close>.
\<close>

fun registry_bulkDeleteResources :: "string list \<Rightarrow> Registry \<Rightarrow> nat \<times> Registry" where
  "registry_bulkDeleteResources [] reg = (0, reg)"
| "registry_bulkDeleteResources (rid # rids) reg =
     (case registry_deleteResource rid reg of
        Inl e \<Rightarrow> registry_bulkDeleteResources rids reg
      | Inr reg' \<Rightarrow>
          (case registry_bulkDeleteResources rids reg' of (n, reg'') \<Rightarrow> (Suc n, reg'')))"

subsection \<open>The calls of lib/api\<close>

text \<open>
  Every function of lib/api is one HTTP request. The world a page acts on is the Registry
  and the log of the requests sent so far; a request answers \<open>Inl\<close> when its promise
  rejects. The planning, dispatch and reinforcement endpoints are parameters.
\<close>

datatype api_call =
    GET_simulation_data
  | GET_safe_areas
  | POST_allocate "Resource list" "DisasterZone list"
  | POST_dispatch AllocationPlan
  | POST_reinforce "string list"
  | POST_resource string
  | POST_disaster string
  | DELETE_resource string
  | DELETE_disaster string
  | POST_bulk_delete "string list"

record world =
  registry :: Registry
  calls :: "api_call list"

text \<open>The requests that change the Registry: create, delete, dispatch and reinforce.\<close>

fun mutating :: "api_call \<Rightarrow> bool" where
  "mutating GET_simulation_data = False"
| "mutating GET_safe_areas = False"
| "mutating (POST_allocate rs zs) = False"
| "mutating (POST_dispatch p) = True"
| "mutating (POST_reinforce zs) = True"
| "mutating (POST_resource t) = True"
| "mutating (POST_disaster t) = True"
| "mutating (DELETE_resource rid) = True"
| "mutating (DELETE_disaster zid) = True"
| "mutating (POST_bulk_delete rids) = True"

definition send :: "api_call \<Rightarrow> world \<Rightarrow> world" where
  "send c w = w\<lparr>calls := calls w @ [c]\<rparr>"

definition fetchSimulationData :: "world \<Rightarrow> (Resource list \<times> DisasterZone list) \<times> world" where
  "fetchSimulationData w =
     ((reg_resources (registry w), reg_zones (registry w)), send GET_simulation_data w)"

definition deleteResource :: "string \<Rightarrow> world \<Rightarrow> (api_error + unit) \<times> world" where
  "deleteResource resourceId w =
     (case registry_deleteResource resourceId (registry w) of
        Inl e \<Rightarrow> (Inl e, send (DELETE_resource resourceId) w)
      | Inr reg' \<Rightarrow> (Inr (), send (DELETE_resource resourceId) (w\<lparr>registry := reg'\<rparr>)))"

definition deleteDisaster :: "string \<Rightarrow> world \<Rightarrow> (api_error + unit) \<times> world" where
  "deleteDisaster zoneId w =
     (case registry_deleteZone zoneId (registry w) of
        Inl e \<Rightarrow> (Inl e, send (DELETE_disaster zoneId) w)
      | Inr reg' \<Rightarrow> (Inr (), send (DELETE_disaster zoneId) (w\<lparr>registry := reg'\<rparr>)))"

definition deleteResourcesBulk :: "string list \<Rightarrow> world \<Rightarrow> nat \<times> world" where
  "deleteResourcesBulk resourceIds w =
     (case registry_bulkDeleteResources resourceIds (registry w) of
        (n, reg') \<Rightarrow> (n, send (POST_bulk_delete resourceIds) (w\<lparr>registry := reg'\<rparr>)))"

definition allocateResources ::
  "(Resource list \<Rightarrow> DisasterZone list \<Rightarrow> api_error + AllocationPlan) \<Rightarrow>
   Resource list \<Rightarrow> DisasterZone list \<Rightarrow> world \<Rightarrow> (api_error + AllocationPlan) \<times> world"
where
  "allocateResources planner resources zones w =
     (planner resources zones, send (POST_allocate resources zones) w)"



definition requestReinforcements ::
  "(string list \<Rightarrow> Registry \<Rightarrow> api_error + nat \<times> Registry) \<Rightarrow>
   string list \<Rightarrow> world \<Rightarrow> (api_error + nat) \<times> world"
where
  "requestReinforcements reinforcer zoneIds w =
     (case reinforcer zoneIds (registry w) of
        Inl e \<Rightarrow> (Inl e, send (POST_reinforce zoneIds) w)
      | Inr (added_count, reg') \<Rightarrow>
          (Inr added_count, send (POST_reinforce zoneIds) (w\<lparr>registry := reg'\<rparr>)))"

subsection \<open>The Simulation page (pages/Simulation.tsx)\<close>

text \<open>
  The state of the page that its handlers read and write: the two snapshots, the plan on
  display, and the three status fields. (The forms, the map view and the safe areas are
  left out: no handler below reads them.)
\<close>

record sim_state =
  sim_resources :: "Resource list"
  sim_zones :: "DisasterZone list"
  sim_allocationPlan :: "AllocationPlan option"
  sim_loading :: bool
  sim_message :: "string option"
  sim_error :: "string option"

definition sim_loadData :: "sim_state \<Rightarrow> world \<Rightarrow> sim_state \<times> world" where
  "sim_loadData st w =
     (case fetchSimulationData w of
        ((rs, zs), w1) \<Rightarrow> (st\<lparr>sim_resources := rs, sim_zones := zs\<rparr>, send GET_safe_areas w1))"

definition sim_handleAllocate ::
  "(Resource list \<Rightarrow> DisasterZone list \<Rightarrow> api_error + AllocationPlan) \<Rightarrow>
   sim_state \<Rightarrow> world \<Rightarrow> sim_state \<times> world"
where
  "sim_handleAllocate planner st w =
     (case allocateResources planner (sim_resources st) (sim_zones st) w of
        (Inr plan, w1) \<Rightarrow>
          (st\<lparr>sim_allocationPlan := Some plan,
              sim_message := Some (''Allocation Plan Generated! Score: '' @ toFixed 2 (total_score plan)),
              sim_loading := False\<rparr>, w1)
      | (Inl e, w1) \<Rightarrow>
          (st\<lparr>sim_error := Some ''Failed to generate allocation plan.'', sim_loading := False\<rparr>, w1))"


text \<open>The Discard button: \<^verbatim>\<open>onClick={() => setAllocationPlan(null)}\<close>.\<close>

definition sim_discard :: "sim_state \<Rightarrow> world \<Rightarrow> sim_state \<times> world" where
  "sim_discard st w = (st\<lparr>sim_allocationPlan := None\<rparr>, w)"

text \<open>
  \<^verbatim>\<open>Promise.all(resources.map(res => deleteResource(res.id)))\<close>: every request is sent,
  and the whole promise rejects when one of them does.
\<close>

fun deleteResource_all :: "string list \<Rightarrow> world \<Rightarrow> bool \<times> world" where
  "deleteResource_all [] w = (True, w)"
| "deleteResource_all (rid # rids) w =
     (case deleteResource rid w of
        (res, w1) \<Rightarrow> (case deleteResource_all rids w1 of (ok, w2) \<Rightarrow> ((case res of Inl e \<Rightarrow> False | Inr u \<Rightarrow> ok), w2)))"

definition sim_handleDeleteZone :: "string \<Rightarrow> sim_state \<Rightarrow> world \<Rightarrow> sim_state \<times> world" where
  "sim_handleDeleteZone zoneId st w =
     (case find (\<lambda>z. z_id z = zoneId) (sim_zones st) of
        None \<Rightarrow> (st, w)
      | Some zone \<Rightarrow>
          (case deleteResource_all (map r_id (sim_resources st)) w of
             (False, w1) \<Rightarrow>
               (st\<lparr>sim_error := Some ''Failed to remove disaster data.'', sim_loading := False\<rparr>, w1)
           | (True, w1) \<Rightarrow>
               (case deleteDisaster zoneId w1 of
                  (Inl e, w2) \<Rightarrow>
                    (st\<lparr>sim_error := Some ''Failed to remove disaster data.'', sim_loading := False\<rparr>, w2)
                | (Inr u, w2) \<Rightarrow>
                    (let st1 = st\<lparr>sim_allocationPlan :=
                                   map_option
                                     (\<lambda>prev. prev\<lparr>allocations :=
                                        filter (\<lambda>a. zone_id a \<noteq> zoneId) (allocations prev)\<rparr>)
                                     (sim_allocationPlan st),
                                 sim_message :=
                                   Some ([CHR 0xE2, CHR 0x9C, CHR 0x85] @ '' Disaster zone and '' @
                                         show_nat (length (sim_resources st)) @ '' resources removed.'')\<rparr>
                     in case sim_loadData st1 w2 of (st2, w3) \<Rightarrow> (st2\<lparr>sim_loading := False\<rparr>, w3)))))"

subsection \<open>The Operation Office (pages/OperationOffice.tsx)\<close>

record office_state =
  off_resources :: "Resource list"
  off_zones :: "DisasterZone list"
  off_allocationPlan :: "AllocationPlan option"
  off_loading :: bool
  off_dispatchStatus :: "string option"
  off_selectedZoneId :: "string option"

definition office_loadSimulationData :: "office_state \<Rightarrow> world \<Rightarrow> office_state \<times> world" where
  "office_loadSimulationData st w =
     (case fetchSimulationData w of
        ((rs, zs), w1) \<Rightarrow>
          (st\<lparr>off_resources := rs, off_zones := zs, off_loading := False\<rparr>, send GET_safe_areas w1))"

text \<open>A selected zone id counts when it is neither \<^verbatim>\<open>null\<close> nor the empty string.\<close>

definition filteredZones :: "office_state \<Rightarrow> DisasterZone list" where
  "filteredZones st =
     (case off_selectedZoneId st of
        None \<Rightarrow> off_zones st
      | Some sel \<Rightarrow> if sel = [] then off_zones st else filter (\<lambda>z. z_id z = sel) (off_zones st))"

definition office_handleAllocate ::
  "(Resource list \<Rightarrow> DisasterZone list \<Rightarrow> api_error + AllocationPlan) \<Rightarrow>
   office_state \<Rightarrow> world \<Rightarrow> office_state \<times> world"
where
  "office_handleAllocate planner st w =
     (case allocateResources planner (off_resources st) (filteredZones st) w of
        (Inr plan, w1) \<Rightarrow> (st\<lparr>off_allocationPlan := Some plan, off_loading := False\<rparr>, w1)
      | (Inl e, w1) \<Rightarrow> (st\<lparr>off_loading := False\<rparr>, w1))"


text \<open>\<open>confirmed\<close> is the answer of the \<^verbatim>\<open>window.confirm\<close> dialog.\<close>

definition office_handleDeleteZone ::
  "string \<Rightarrow> bool \<Rightarrow> office_state \<Rightarrow> world \<Rightarrow> office_state \<times> world"
where
  "office_handleDeleteZone zoneId confirmed st w =
     (case find (\<lambda>z. z_id z = zoneId) (off_zones st) of
        None \<Rightarrow> (st, w)
      | Some zone \<Rightarrow>
          if \<not> confirmed then (st, w)
          else
            (let allResourceIds = map r_id (off_resources st);
                 w1 = (if length allResourceIds > 0 then snd (deleteResourcesBulk allResourceIds w) else w)
             in case deleteDisaster zoneId w1 of
                  (Inl e, w2) \<Rightarrow> (st\<lparr>off_loading := False\<rparr>, w2)
                | (Inr u, w2) \<Rightarrow>
                    (case office_loadSimulationData (st\<lparr>off_allocationPlan := None\<rparr>) w2 of
                       (st2, w3) \<Rightarrow> (st2\<lparr>off_loading := False\<rparr>, w3))))"

subsection \<open>The sidebar (components/ResourceSidebar.tsx)\<close>

text \<open>
  The reinforcement button is rendered under \<^verbatim>\<open>allocationPlan && ...\<close> and
  \<^verbatim>\<open>allocationPlan.unserved_zones.length > 0 && ...\<close>; its handler tests the length
  again, awaits \<open>requestReinforcements\<close> and then schedules \<open>onAllocate\<close>. When the
  request rejects, the handler ends there. (The caption that the handler writes on the
  button is outside the state.)
\<close>

definition reinforce_button_shown :: "AllocationPlan option \<Rightarrow> bool" where
  "reinforce_button_shown p =
     (case p of None \<Rightarrow> False | Some allocationPlan \<Rightarrow> length (unserved_zones allocationPlan) > 0)"

definition reinforce_onClick ::
  "(string list \<Rightarrow> Registry \<Rightarrow> api_error + nat \<times> Registry) \<Rightarrow>
   ('s \<Rightarrow> world \<Rightarrow> 's \<times> world) \<Rightarrow> AllocationPlan \<Rightarrow> 's \<Rightarrow> world \<Rightarrow> 's \<times> world"
where
  "reinforce_onClick reinforcer onAllocate allocationPlan st w =
     (if length (unserved_zones allocationPlan) > 0
      then
        (case requestReinforcements reinforcer (unserved_zones allocationPlan) w of
           (Inl e, w1) \<Rightarrow> (st, w1)
         | (Inr added_count, w1) \<Rightarrow> onAllocate st w1)
      else (st, w))"

text \<open>
  The sidebar as the Operation Office mounts it: \<open>onAllocate\<close> is \<open>handleAllocate\<close>,
  and a click reaches the handler only on a rendered button.
\<close>

definition office_reinforce_click ::
  "(Resource list \<Rightarrow> DisasterZone list \<Rightarrow> api_error + AllocationPlan) \<Rightarrow>
   (string list \<Rightarrow> Registry \<Rightarrow> api_error + nat \<times> Registry) \<Rightarrow>
   office_state \<Rightarrow> world \<Rightarrow> office_state \<times> world"
where
  "office_reinforce_click planner reinforcer st w =
     (case off_allocationPlan st of
        None \<Rightarrow> (st, w)
      | Some allocationPlan \<Rightarrow>
          if reinforce_button_shown (Some allocationPlan)
          then reinforce_onClick reinforcer (office_handleAllocate planner) allocationPlan st w
          else (st, w))"

text \<open>
  The proximity ranking of \<open>handleAnalyzeSituation\<close>: each resource with its distance
  to the zone, those under 200 kept, nearest first (the sort is stable).
\<close>

definition proximity_km :: "Location \<Rightarrow> Location \<Rightarrow> real" where
  "proximity_km a b = sqrt ((lat a - lat b) ^ 2 + (lng a - lng b) ^ 2) * 111"

text \<open>
  The same expression when every operation rounds its exact result, as floating-point
  arithmetic does; \<open>rnd\<close> is the rounding.
\<close>

definition proximity_km_rounded :: "(real \<Rightarrow> real) \<Rightarrow> Location \<Rightarrow> Location \<Rightarrow> real" where
  "proximity_km_rounded rnd a b =
     rnd (rnd (sqrt (rnd (rnd ((rnd (lat a - lat b)) ^ 2) + rnd ((rnd (lng a - lng b)) ^ 2)))) * 111)"

definition nearby :: "Resource list \<Rightarrow> DisasterZone \<Rightarrow> (Resource \<times> real) list" where
  "nearby resources zone =
     sort_key snd
       (filter (\<lambda>rd. snd rd < 200)
          (map (\<lambda>r. (r, proximity_km (r_location r) (z_location zone))) resources))"

text \<open>
  The distance of the spec, for comparison: the haversine formula on a sphere of radius
  6371 km, with the coordinates in degrees.
\<close>

definition deg2rad :: "real \<Rightarrow> real" where
  "deg2rad x = x * pi / 180"

definition spec_haversine_km :: "Location \<Rightarrow> Location \<Rightarrow> real" where
  "spec_haversine_km a b =
     (let h = (sin (deg2rad (lat b - lat a) / 2)) ^ 2
              + cos (deg2rad (lat a)) * cos (deg2rad (lat b)) * (sin (deg2rad (lng b - lng a) / 2)) ^ 2
      in 2 * 6371 * arcsin (sqrt h))"

section \<open>The engine behind the API\<close>

subsection \<open>The Allocation Planner\<close>

text \<open>
  Modelled from the spec: the Allocation Planner (section 4.3), with the ETA contract of
  section 4.1. The planner is server code that is not among the sources; the pages only
  post to it. What the spec leaves to policy is a parameter: the distance function, the
  optional ETA ceiling, the rendering of the distance in the explanation and the text that
  flags an ETA above 180 minutes.
\<close>

record policy =
  pol_distance :: "Location \<Rightarrow> Location \<Rightarrow> real"
  pol_max_eta :: "real option"
  pol_show_km :: "real \<Rightarrow> string"
  pol_late_flag :: string

definition eta :: "real \<Rightarrow> real \<Rightarrow> api_error + real" where
  "eta d speed = (if speed = 0 then Inl InvalidResourceConfig else Inr (d / speed * 60))"

text \<open>A malformed resource has a zero or negative speed or capacity (section 7).\<close>

definition malformed :: "Resource \<Rightarrow> bool" where
  "malformed r = (r_speed_kmh r \<le> 0 \<or> r_capacity r \<le> 0)"

definition plan_warnings :: "Resource list \<Rightarrow> string list" where
  "plan_warnings resources = map r_id (filter malformed resources)"

text \<open>Step 2: the zones by severity, then population, both descending, then id ascending.\<close>

fun str_less :: "string \<Rightarrow> string \<Rightarrow> bool" where
  "str_less [] [] = False"
| "str_less [] (y # ys) = True"
| "str_less (x # xs) [] = False"
| "str_less (x # xs) (y # ys) =
     ((of_char x :: nat) < of_char y \<or> (x = y \<and> str_less xs ys))"

definition zone_before :: "DisasterZone \<Rightarrow> DisasterZone \<Rightarrow> bool" where
  "zone_before a b =
     (z_severity a > z_severity b
      \<or> (z_severity a = z_severity b
          \<and> (z_affected_population a > z_affected_population b
              \<or> (z_affected_population a = z_affected_population b \<and> str_less (z_id a) (z_id b)))))"

fun insert_zone :: "DisasterZone \<Rightarrow> DisasterZone list \<Rightarrow> DisasterZone list" where
  "insert_zone z [] = [z]"
| "insert_zone z (y # ys) = (if zone_before y z then y # insert_zone z ys else z # y # ys)"

definition sort_zones :: "DisasterZone list \<Rightarrow> DisasterZone list" where
  "sort_zones zs = foldr insert_zone zs []"

text \<open>
  Step 3a and 3b: a resource is compatible with a required type when it has that type or
  lists it among its specializations; the nearest compatible one is taken, the lowest id
  on equal distance.
\<close>

definition compatible :: "Resource \<Rightarrow> string \<Rightarrow> bool" where
  "compatible r t = (r_type r = t \<or> t \<in> set (r_specialization r))"

definition closer :: "(Location \<Rightarrow> Location \<Rightarrow> real) \<Rightarrow> Location \<Rightarrow> Resource \<Rightarrow> Resource \<Rightarrow> bool" where
  "closer dfun loc r b =
     (dfun (r_location r) loc < dfun (r_location b) loc
      \<or> (dfun (r_location r) loc = dfun (r_location b) loc \<and> str_less (r_id r) (r_id b)))"

fun nearest :: "(Location \<Rightarrow> Location \<Rightarrow> real) \<Rightarrow> Location \<Rightarrow> Resource list \<Rightarrow> Resource option" where
  "nearest dfun loc [] = None"
| "nearest dfun loc (r # rs) =
     (case nearest dfun loc rs of
        None \<Rightarrow> Some r
      | Some b \<Rightarrow> if closer dfun loc r b then Some r else Some b)"

definition exceeds :: "real option \<Rightarrow> real \<Rightarrow> bool" where
  "exceeds limit e = (case limit of None \<Rightarrow> False | Some m \<Rightarrow> e > m)"

definition make_allocation :: "policy \<Rightarrow> Resource \<Rightarrow> DisasterZone \<Rightarrow> real \<Rightarrow> real \<Rightarrow> Allocation" where
  "make_allocation P r z d e =
     \<lparr>resource_id = r_id r, zone_id = z_id z, eta_minutes = e, distance_km = d,
      explanation = ''Proximity: '' @ pol_show_km P d @ ''km''
                    @ (if e > 180 then pol_late_flag P else [])\<rparr>"

text \<open>
  Step 3d removes the matched resource from the pool. A resource is its id (unique and
  immutable in the data model), so every entry of the pool with that id goes.
\<close>

definition remove_resource :: "Resource \<Rightarrow> Resource list \<Rightarrow> Resource list" where
  "remove_resource r pool = filter (\<lambda>x. r_id x \<noteq> r_id r) pool"

text \<open>
  Steps 3c and 3d for the \<open>n\<close> slots of one required type: the allocations made, the
  pool that is left and the number of slots left unmet. When no compatible resource is
  left, or the nearest one is beyond the ceiling, the same holds for the slots that
  follow, so all of them stay unmet.
\<close>

fun fill_slots ::
  "policy \<Rightarrow> DisasterZone \<Rightarrow> string \<Rightarrow> nat \<Rightarrow> Resource list \<Rightarrow> Allocation list \<times> Resource list \<times> nat"
where
  "fill_slots P z t 0 pool = ([], pool, 0)"
| "fill_slots P z t (Suc n) pool =
     (case nearest (pol_distance P) (z_location z) (filter (\<lambda>r. compatible r t) pool) of
        None \<Rightarrow> ([], pool, Suc n)
      | Some r \<Rightarrow>
          (case eta (pol_distance P (r_location r) (z_location z)) (r_speed_kmh r) of
             Inl err \<Rightarrow> ([], pool, Suc n)
           | Inr e \<Rightarrow>
               if exceeds (pol_max_eta P) e then ([], pool, Suc n)
               else
                 (case fill_slots P z t n (remove_resource r pool) of
                    (as, pool', unmet) \<Rightarrow>
                      (make_allocation P r z (pol_distance P (r_location r) (z_location z)) e # as,
                       pool', unmet))))"

fun serve_zone ::
  "policy \<Rightarrow> DisasterZone \<Rightarrow> (string \<times> nat) list \<Rightarrow> Resource list \<Rightarrow> Allocation list \<times> Resource list \<times> nat"
where
  "serve_zone P z [] pool = ([], pool, 0)"
| "serve_zone P z ((t, n) # reqs) pool =
     (case fill_slots P z t n pool of
        (as1, pool1, unmet1) \<Rightarrow>
          (case serve_zone P z reqs pool1 of
             (as2, pool2, unmet2) \<Rightarrow> (as1 @ as2, pool2, unmet1 + unmet2)))"

text \<open>
  Step 5 for one zone: a zone that received resources adds its severity times the share
  of its required resources that it received; a zone with an unmet slot costs twice its
  severity.
\<close>

definition zone_score :: "DisasterZone \<Rightarrow> nat \<Rightarrow> nat \<Rightarrow> real" where
  "zone_score z assigned unmet =
     (if assigned = 0 then 0
      else real_of_int (z_severity z) * (real assigned / real (sum_list (map snd (z_required_resources z)))))
     - (if unmet > 0 then real_of_int (z_severity z) * 2 else 0)"

fun plan_zones ::
  "policy \<Rightarrow> DisasterZone list \<Rightarrow> Resource list \<Rightarrow> Allocation list \<times> Resource list \<times> string list \<times> real"
where
  "plan_zones P [] pool = ([], pool, [], 0)"
| "plan_zones P (z # zs) pool =
     (case serve_zone P z (z_required_resources z) pool of
        (as1, pool1, unmet) \<Rightarrow>
          (case plan_zones P zs pool1 of
             (as2, pool2, unserved, score) \<Rightarrow>
               (as1 @ as2, pool2,
                (if unmet > 0 then z_id z # unserved else unserved),
                zone_score z (length as1) unmet + score)))"

text \<open>
  Modelled from the spec: \<open>plan(resources, zones)\<close> of the Allocation Planner, whose code
  is missing. The wall-clock duration of step 6 and the rationale of step 7 (absent when
  the external call fails) come from outside. An available resource has the status string
  \<open>Available\<close>, the one the pages compare with (\<^verbatim>\<open>r.status === 'Available'\<close>).
\<close>

definition plan ::
  "policy \<Rightarrow> real \<Rightarrow> string option \<Rightarrow> Resource list \<Rightarrow> DisasterZone list \<Rightarrow> AllocationPlan"
where
  "plan P elapsed_ms rationale resources zones =
     (case plan_zones P (sort_zones zones)
             (filter (\<lambda>r. r_status r = ''Available'' \<and> \<not> malformed r) resources) of
        (as, pool', unserved, score) \<Rightarrow>
          \<lparr>allocations = as,
           unallocated_resources =
             map r_id (filter (\<lambda>r. r_id r \<notin> set (map resource_id as)) resources),
           unserved_zones = unserved,
           total_score = score,
           computation_time_ms = elapsed_ms,
           ai_rationale = rationale\<rparr>)"

text \<open>
  The invariant of the planner's loops: the ids allocated so far are all different, none
  of them is left in the pool, and the allocated ids and the pool both come from the pool
  the loop started with.
\<close>

definition alloc_inv :: "Resource list \<Rightarrow> Allocation list \<Rightarrow> Resource list \<Rightarrow> bool" where
  "alloc_inv pool as pool' =
     (distinct (map resource_id as)
      \<and> set (map resource_id as) \<inter> set (map r_id pool') = {}
      \<and> set (map resource_id as) \<subseteq> set (map r_id pool)
      \<and> set (map r_id pool') \<subseteq> set (map r_id pool))"

subsection \<open>The Dispatch Coordinator\<close>

text \<open>
  Modelled from the spec: the Dispatch Coordinator (section 4.4), server code that is not
  among the sources. Each allocation of the plan is revalidated against the Registry when
  its turn comes: when its resource is there and \<open>Available\<close> it is committed (the
  resource goes en route, the zone to \<open>Processing\<close>), otherwise it is dropped. The
  coordinator counts both. The status string of a resource en route is a parameter: no
  source gives it.
\<close>

definition still_available :: "Registry \<Rightarrow> Allocation \<Rightarrow> bool" where
  "still_available reg a =
     list_ex (\<lambda>r. r_id r = resource_id a \<and> r_status r = ''Available'') (reg_resources reg)"

definition commit_allocation :: "string \<Rightarrow> Allocation \<Rightarrow> Registry \<Rightarrow> Registry" where
  "commit_allocation en_route a reg =
     reg\<lparr>reg_resources :=
           map (\<lambda>r. if r_id r = resource_id a then r\<lparr>r_status := en_route\<rparr> else r)
             (reg_resources reg),
         reg_zones :=
           map (\<lambda>z. if z_id z = zone_id a then z\<lparr>z_status := Some ''Processing''\<rparr> else z)
             (reg_zones reg)\<rparr>"

fun commit_all :: "string \<Rightarrow> Allocation list \<Rightarrow> Registry \<Rightarrow> nat \<times> nat \<times> Registry" where
  "commit_all en_route [] reg = (0, 0, reg)"
| "commit_all en_route (a # as) reg =
     (if still_available reg a
      then (case commit_all en_route as (commit_allocation en_route a reg) of
              (c, d, reg') \<Rightarrow> (Suc c, d, reg'))
      else (case commit_all en_route as reg of (c, d, reg') \<Rightarrow> (c, Suc d, reg')))"


subsection \<open>A small scenario\<close>

text \<open>
  Two zones, two ambulances, and a plan that sends the first ambulance to the first zone
  and the second to the second. A resource is tied to a zone when the plan on display
  allocates it there.
\<close>

definition tied_to_zone :: "AllocationPlan option \<Rightarrow> string \<Rightarrow> Resource \<Rightarrow> bool" where
  "tied_to_zone p zid r =
     (case p of
        None \<Rightarrow> False
      | Some pl \<Rightarrow> list_ex (\<lambda>a. resource_id a = r_id r \<and> zone_id a = zid) (allocations pl))"

definition ex_res1 :: Resource where
  "ex_res1 = \<lparr>r_id = ''res-1'', r_type = ''Ambulance'', r_location = \<lparr>lat = 19, lng = 72\<rparr>,
      r_capacity = 10, r_status = ''Available'', r_specialization = [], r_speed_kmh = 60\<rparr>"

definition ex_res2 :: Resource where
  "ex_res2 = \<lparr>r_id = ''res-2'', r_type = ''Ambulance'', r_location = \<lparr>lat = 28, lng = 77\<rparr>,
      r_capacity = 10, r_status = ''Available'', r_specialization = [], r_speed_kmh = 60\<rparr>"

definition ex_zone1 :: DisasterZone where
  "ex_zone1 = \<lparr>z_id = ''zone-1'', z_type = ''Flood'', z_severity = 9, z_location = \<lparr>lat = 19, lng = 73\<rparr>,
      z_affected_population = 5000, z_vulnerability_score = 1 / 2,
      z_required_resources = [(''Ambulance'', 1)], z_status = Some ''Active''\<rparr>"

definition ex_zone2 :: DisasterZone where
  "ex_zone2 = \<lparr>z_id = ''zone-2'', z_type = ''Earthquake'', z_severity = 7, z_location = \<lparr>lat = 28, lng = 78\<rparr>,
      z_affected_population = 2000, z_vulnerability_score = 1 / 4,
      z_required_resources = [(''Ambulance'', 1)], z_status = Some ''Active''\<rparr>"

definition ex_plan :: AllocationPlan where
  "ex_plan = \<lparr>allocations =
        [\<lparr>resource_id = ''res-1'', zone_id = ''zone-1'', eta_minutes = 111, distance_km = 111,
          explanation = ''Proximity: 111km''\<rparr>,
         \<lparr>resource_id = ''res-2'', zone_id = ''zone-2'', eta_minutes = 111, distance_km = 111,
          explanation = ''Proximity: 111km''\<rparr>],
      unallocated_resources = [], unserved_zones = [], total_score = 16,
      computation_time_ms = 1, ai_rationale = None\<rparr>"

definition ex_world :: world where
  "ex_world = \<lparr>registry = \<lparr>reg_resources = [ex_res1, ex_res2], reg_zones = [ex_zone1, ex_zone2]\<rparr>,
      calls = []\<rparr>"

definition ex_sim :: sim_state where
  "ex_sim = \<lparr>sim_resources = [ex_res1, ex_res2], sim_zones = [ex_zone1, ex_zone2],
      sim_allocationPlan = Some ex_plan, sim_loading = False, sim_message = None, sim_error = None\<rparr>"

definition ex_office :: office_state where
  "ex_office = \<lparr>off_resources = [ex_res1, ex_res2], off_zones = [ex_zone1, ex_zone2],
      off_allocationPlan = Some ex_plan, off_loading = False, off_dispatchStatus = None,
      off_selectedZoneId = None\<rparr>"




text \<open>
  A policy for the planner: the haversine distance, no ETA ceiling, distances rendered
  with one fraction digit.
\<close>

definition ex_policy :: policy where
  "ex_policy = \<lparr>pol_distance = spec_haversine_km, pol_max_eta = None,
      pol_show_km = toFixed 1, pol_late_flag = '' (ETA above 180 minutes)''\<rparr>"

text \<open>
  Scenario A of the spec, on a line: the zone at the origin, ambulances at a given number
  of km from it, and the distance along the line.
\<close>

definition line_policy :: policy where
  "line_policy = \<lparr>pol_distance = (\<lambda>a b. \<bar>lat a - lat b\<bar> + \<bar>lng a - lng b\<bar>), pol_max_eta = None,
      pol_show_km = toFixed 1, pol_late_flag = '' (ETA above 180 minutes)''\<rparr>"

definition ambulance_at :: "string \<Rightarrow> real \<Rightarrow> Resource" where
  "ambulance_at i km = \<lparr>r_id = i, r_type = ''Ambulance'', r_location = \<lparr>lat = km, lng = 0\<rparr>,
      r_capacity = 10, r_status = ''Available'', r_specialization = [], r_speed_kmh = 60\<rparr>"

definition zone_needing :: "nat \<Rightarrow> DisasterZone" where
  "zone_needing n = \<lparr>z_id = ''zone-1'', z_type = ''Flood'', z_severity = 9,
      z_location = \<lparr>lat = 0, lng = 0\<rparr>, z_affected_population = 5000, z_vulnerability_score = 1 / 2,
      z_required_resources = [(''Ambulance'', n)], z_status = Some ''Active''\<rparr>"

section \<open>Properties of the display utilities\<close>




text \<open>
  C9. For 119.5 minutes \<open>formatETA\<close> returns \<open>1h 60m\<close>: the remainder 59.5 is rounded
  after the hours are split off, and rounds up to a minutes component of 60.
\<close>

theorem formatETA_sixty_minutes:
  "formatETA (239 / 2) = ''1h 60m'' \<and> formatETA_mins (239 / 2) = 60"
  by code_simp

text \<open>On whole minutes the remainder is exact, and the component stays below 60.\<close>

lemma js_rem_int: "0 \<le> n \<Longrightarrow> js_rem (of_int n) 60 = of_int (n mod 60)"
proof -
  assume n: "0 \<le> n"
  have "js_trunc (of_int n / 60) = n div 60"
    using n by (simp add: js_trunc_def floor_divide_of_int_eq[of n 60, simplified])
  then show ?thesis
    by (simp add: js_rem_def) (metis minus_mult_div_eq_mod of_int_diff of_int_mult of_int_numeral)
qed

lemma formatETA_mins_integer:
  "0 \<le> n \<Longrightarrow> formatETA_mins (of_int n) = n mod 60 \<and> formatETA_mins (of_int n) < 60"
  by (simp add: formatETA_mins_def js_rem_int Math_round_def)

text \<open>
  In general the component reaches 60, and never more, exactly when the remainder is
  59.5 or above.
\<close>

lemma js_rem_range: "0 \<le> m \<Longrightarrow> 0 \<le> js_rem m 60 \<and> js_rem m 60 < 60"
proof -
  assume m: "0 \<le> m"
  have t: "js_trunc (m / 60) = \<lfloor>m / 60\<rfloor>" using m by (simp add: js_trunc_def)
  have "real_of_int \<lfloor>m / 60\<rfloor> \<le> m / 60" by (rule of_int_floor_le)
  moreover have "m / 60 < real_of_int \<lfloor>m / 60\<rfloor> + 1" by linarith
  ultimately show ?thesis unfolding js_rem_def t by linarith
qed

lemma formatETA_mins_sixty_iff:
  assumes "0 \<le> m"
  shows "formatETA_mins m \<le> 60 \<and> (formatETA_mins m = 60) = (119 / 2 \<le> js_rem m 60)"
proof -
  from js_rem_range[OF assms] have r: "0 \<le> js_rem m 60" "js_rem m 60 < 60" by simp_all
  have "formatETA_mins m = \<lfloor>js_rem m 60 + 1 / 2\<rfloor>" by (simp add: formatETA_mins_def Math_round_def)
  then show ?thesis using r by (auto simp: floor_eq_iff)
qed

section \<open>Properties of the weather cache\<close>

text \<open>
  C10. \<open>getCachedWeather\<close> returns data exactly when an entry is stored, parses, names
  the selected city and is less than five minutes old, and the data is that entry's; in
  every other case (nothing stored, an entry that does not parse, another city, an
  expired entry) it returns \<^verbatim>\<open>null\<close>.
\<close>

theorem getCachedWeather_hit_iff:
  "(fst (getCachedWeather P stored c now) = Some d) =
     (\<exists>s e. stored = Some s \<and> s \<noteq> [] \<and> P s = Some e \<and> cache_city e = c
            \<and> now - cache_timestamp e < 5 * 60 * 1000 \<and> d = cache_data e)
   \<and> (fst (getCachedWeather P stored c now) = None) =
     (\<not> (\<exists>s e. stored = Some s \<and> s \<noteq> [] \<and> P s = Some e \<and> cache_city e = c
            \<and> now - cache_timestamp e < 5 * 60 * 1000))"
  by (auto simp: getCachedWeather_def CACHE_DURATION_def split: option.splits)

text \<open>The four ways to miss, one by one.\<close>

lemma getCachedWeather_misses:
  "getCachedWeather P None c now = (None, None)"
  "P s = None \<Longrightarrow> getCachedWeather P (Some s) c now = (None, None)"
  "P s = Some e \<Longrightarrow> cache_city e \<noteq> c \<Longrightarrow> getCachedWeather P (Some s) c now = (None, None)"
  "P s = Some e \<Longrightarrow> CACHE_DURATION \<le> now - cache_timestamp e \<Longrightarrow>
     getCachedWeather P (Some s) c now = (None, None)"
  by (simp_all add: getCachedWeather_def)

section \<open>Properties of the pages\<close>

text \<open>
  C6. Discarding the plan on display sends no request and leaves the Registry, the
  request log and the page's resources and zones as they were: only the plan is cleared.
\<close>

theorem sim_discard_no_side_effects:
  "snd (sim_discard st w) = w
   \<and> registry (snd (sim_discard st w)) = registry w
   \<and> filter mutating (calls (snd (sim_discard st w))) = filter mutating (calls w)
   \<and> sim_resources (fst (sim_discard st w)) = sim_resources st
   \<and> sim_zones (fst (sim_discard st w)) = sim_zones st
   \<and> sim_allocationPlan (fst (sim_discard st w)) = None"
  by (simp add: sim_discard_def)

text \<open>Generating a plan and discarding it adds one planning request and nothing else.\<close>

lemma sim_generate_then_discard:
  "registry (snd (sim_discard (fst (sim_handleAllocate planner st w)) (snd (sim_handleAllocate planner st w)))) = registry w
   \<and> calls (snd (sim_discard (fst (sim_handleAllocate planner st w)) (snd (sim_handleAllocate planner st w))))
       = calls w @ [POST_allocate (sim_resources st) (sim_zones st)]"
  by (simp add: sim_discard_def sim_handleAllocate_def allocateResources_def send_def split: sum.splits)

lemma requestReinforcements_calls:
  "calls (snd (requestReinforcements R zs w)) = calls w @ [POST_reinforce zs]"
  by (simp add: requestReinforcements_def send_def split: sum.splits prod.splits)

lemma office_handleAllocate_calls:
  "calls (snd (office_handleAllocate P st w)) = calls w @ [POST_allocate (off_resources st) (filteredZones st)]"
  by (simp add: office_handleAllocate_def allocateResources_def send_def split: sum.splits)

text \<open>
  C5. A click on the reinforcement button sends a reinforcement request only when the
  plan on display has unserved zones; the request is a single \<open>POST_reinforce\<close> and
  plans nothing itself; the planning request is the caller's, sent after the
  reinforcement request has been answered.
\<close>

theorem reinforce_click_trace:
  "calls (snd (office_reinforce_click P R st w)) =
     calls w @
       (case off_allocationPlan st of
          None \<Rightarrow> []
        | Some pl \<Rightarrow>
            if unserved_zones pl = [] then []
            else POST_reinforce (unserved_zones pl) #
                 (case R (unserved_zones pl) (registry w) of
                    Inl e \<Rightarrow> []
                  | Inr added \<Rightarrow> [POST_allocate (off_resources st) (filteredZones st)]))
   \<and> calls (snd (requestReinforcements R zs w)) = calls w @ [POST_reinforce zs]"
proof -
  have a: "calls (snd (requestReinforcements R zs w)) = calls w @ [POST_reinforce zs]"
    by (rule requestReinforcements_calls)
  have b: "calls (snd (office_reinforce_click P R st w)) =
     calls w @
       (case off_allocationPlan st of
          None \<Rightarrow> []
        | Some pl \<Rightarrow>
            if unserved_zones pl = [] then []
            else POST_reinforce (unserved_zones pl) #
                 (case R (unserved_zones pl) (registry w) of
                    Inl e \<Rightarrow> []
                  | Inr added \<Rightarrow> [POST_allocate (off_resources st) (filteredZones st)]))"
  proof (cases "off_allocationPlan st")
    case None
    then show ?thesis by (simp add: office_reinforce_click_def)
  next
    case (Some pl)
    show ?thesis
    proof (cases "unserved_zones pl = []")
      case True
      with Some show ?thesis
        by (simp add: office_reinforce_click_def reinforce_button_shown_def)
    next
      case False
      show ?thesis
      proof (cases "R (unserved_zones pl) (registry w)")
        case (Inl e)
        with Some False show ?thesis
          by (simp add: office_reinforce_click_def reinforce_button_shown_def reinforce_onClick_def
              requestReinforcements_def send_def)
      next
        case (Inr res)
        with Some False show ?thesis
          by (simp add: office_reinforce_click_def reinforce_button_shown_def reinforce_onClick_def
              requestReinforcements_def office_handleAllocate_calls send_def split: prod.splits)
      qed
    qed
  qed
  from a b show ?thesis by simp
qed

subsection \<open>Deleting a zone\<close>

lemma filter_id_absent:
  "\<not> list_ex (\<lambda>r. f r = k) xs \<Longrightarrow> filter (\<lambda>r. f r \<noteq> k) xs = xs"
  by (induction xs) auto

lemma filter_not_in_Cons:
  "filter (\<lambda>r. f r \<notin> set (k # ks)) xs = filter (\<lambda>r. f r \<notin> set ks) (filter (\<lambda>r. f r \<noteq> k) xs)"
  by (induction xs) auto

lemma deleteResource_registry:
  "reg_resources (registry (snd (deleteResource rid w))) = filter (\<lambda>r. r_id r \<noteq> rid) (reg_resources (registry w))
   \<and> reg_zones (registry (snd (deleteResource rid w))) = reg_zones (registry w)"
  by (simp add: deleteResource_def registry_deleteResource_def send_def filter_id_absent)

lemma deleteResource_all_registry:
  "reg_resources (registry (snd (deleteResource_all rids w))) = filter (\<lambda>r. r_id r \<notin> set rids) (reg_resources (registry w))
   \<and> reg_zones (registry (snd (deleteResource_all rids w))) = reg_zones (registry w)"
proof (induction rids arbitrary: w)
  case Nil
  show ?case by simp
next
  case (Cons rid rids)
  obtain res w1 where d: "deleteResource rid w = (res, w1)" by (cases "deleteResource rid w")
  obtain ok w2 where a: "deleteResource_all rids w1 = (ok, w2)" by (cases "deleteResource_all rids w1")
  have w1: "reg_resources (registry w1) = filter (\<lambda>r. r_id r \<noteq> rid) (reg_resources (registry w))"
           "reg_zones (registry w1) = reg_zones (registry w)"
    using deleteResource_registry[of rid w] d by simp_all
  have w2: "reg_resources (registry w2) = filter (\<lambda>r. r_id r \<notin> set rids) (reg_resources (registry w1))"
           "reg_zones (registry w2) = reg_zones (registry w1)"
    using Cons.IH[of w1] a by simp_all
  have "snd (deleteResource_all (rid # rids) w) = w2" using d a by simp
  then show ?case using w1 w2 by (simp only: filter_not_in_Cons)
qed

lemma registry_bulkDeleteResources_registry:
  "reg_resources (snd (registry_bulkDeleteResources rids reg)) = filter (\<lambda>r. r_id r \<notin> set rids) (reg_resources reg)
   \<and> reg_zones (snd (registry_bulkDeleteResources rids reg)) = reg_zones reg"
proof (induction rids arbitrary: reg)
  case Nil
  show ?case by simp
next
  case (Cons rid rids)
  show ?case
  proof (cases "registry_deleteResource rid reg")
    case (Inl e)
    then have "\<not> list_ex (\<lambda>r. r_id r = rid) (reg_resources reg)"
      by (simp add: registry_deleteResource_def split: if_splits)
    then have f: "filter (\<lambda>r. r_id r \<noteq> rid) (reg_resources reg) = reg_resources reg"
      by (rule filter_id_absent)
    have "snd (registry_bulkDeleteResources (rid # rids) reg) = snd (registry_bulkDeleteResources rids reg)"
      using Inl by simp
    then show ?thesis using Cons.IH[of reg] f by (simp only: filter_not_in_Cons)
  next
    case (Inr reg')
    then have r: "reg_resources reg' = filter (\<lambda>r. r_id r \<noteq> rid) (reg_resources reg)"
      "reg_zones reg' = reg_zones reg"
      by (auto simp: registry_deleteResource_def split: if_splits)
    have "snd (registry_bulkDeleteResources (rid # rids) reg) = snd (registry_bulkDeleteResources rids reg')"
      using Inr by (simp split: prod.splits)
    then show ?thesis using Cons.IH[of reg'] r by (simp only: filter_not_in_Cons)
  qed
qed

lemma deleteResourcesBulk_registry:
  "reg_resources (registry (snd (deleteResourcesBulk rids w))) = filter (\<lambda>r. r_id r \<notin> set rids) (reg_resources (registry w))
   \<and> reg_zones (registry (snd (deleteResourcesBulk rids w))) = reg_zones (registry w)"
  using registry_bulkDeleteResources_registry[of rids "registry w"]
  by (cases "registry_bulkDeleteResources rids (registry w)") (simp add: deleteResourcesBulk_def send_def)

lemma deleteDisaster_registry:
  "reg_resources (registry (snd (deleteDisaster zid w))) = reg_resources (registry w)
   \<and> filter (\<lambda>z. z_id z \<noteq> zid) (reg_zones (registry (snd (deleteDisaster zid w))))
       = filter (\<lambda>z. z_id z \<noteq> zid) (reg_zones (registry w))"
  by (simp add: deleteDisaster_def registry_deleteZone_def send_def)

lemma sim_loadData_registry: "registry (snd (sim_loadData st w)) = registry w"
  by (simp add: sim_loadData_def fetchSimulationData_def send_def)

lemma office_loadSimulationData_registry: "registry (snd (office_loadSimulationData st w)) = registry w"
  by (simp add: office_loadSimulationData_def fetchSimulationData_def send_def)

lemma sim_handleDeleteZone_registry:
  assumes f: "find (\<lambda>z. z_id z = zoneId) (sim_zones st) = Some zone"
  shows "reg_resources (registry (snd (sim_handleDeleteZone zoneId st w)))
           = filter (\<lambda>r. r_id r \<notin> set (map r_id (sim_resources st))) (reg_resources (registry w))
       \<and> filter (\<lambda>z. z_id z \<noteq> zoneId) (reg_zones (registry (snd (sim_handleDeleteZone zoneId st w))))
           = filter (\<lambda>z. z_id z \<noteq> zoneId) (reg_zones (registry w))"
proof -
  obtain ok w1 where a: "deleteResource_all (map r_id (sim_resources st)) w = (ok, w1)"
    by (cases "deleteResource_all (map r_id (sim_resources st)) w")
  have w1: "reg_resources (registry w1) = filter (\<lambda>r. r_id r \<notin> set (map r_id (sim_resources st))) (reg_resources (registry w))"
           "reg_zones (registry w1) = reg_zones (registry w)"
    using deleteResource_all_registry[of "map r_id (sim_resources st)" w] a by simp_all
  obtain res w2 where d: "deleteDisaster zoneId w1 = (res, w2)" by (cases "deleteDisaster zoneId w1")
  have w2: "reg_resources (registry w2) = reg_resources (registry w1)"
     "filter (\<lambda>z. z_id z \<noteq> zoneId) (reg_zones (registry w2)) = filter (\<lambda>z. z_id z \<noteq> zoneId) (reg_zones (registry w1))"
    using deleteDisaster_registry[of zoneId w1] d by simp_all
  have "registry (snd (sim_handleDeleteZone zoneId st w)) = registry (if ok then w2 else w1)"
  proof (cases ok)
    case False
    with f a show ?thesis by (simp add: sim_handleDeleteZone_def)
  next
    case True
    show ?thesis
    proof (cases res)
      case (Inl e)
      with True f a d show ?thesis by (simp add: sim_handleDeleteZone_def)
    next
      case (Inr u)
      with True f a d show ?thesis
        by (simp add: sim_handleDeleteZone_def Let_def sim_loadData_def fetchSimulationData_def send_def)
    qed
  qed
  then show ?thesis using w1 w2 by (cases ok) simp_all
qed

lemma office_handleDeleteZone_registry:
  assumes f: "find (\<lambda>z. z_id z = zoneId) (off_zones st) = Some zone"
  shows "reg_resources (registry (snd (office_handleDeleteZone zoneId True st w)))
           = filter (\<lambda>r. r_id r \<notin> set (map r_id (off_resources st))) (reg_resources (registry w))
       \<and> filter (\<lambda>z. z_id z \<noteq> zoneId) (reg_zones (registry (snd (office_handleDeleteZone zoneId True st w))))
           = filter (\<lambda>z. z_id z \<noteq> zoneId) (reg_zones (registry w))"
proof -
  define w1 where "w1 = (if length (map r_id (off_resources st)) > 0
                         then snd (deleteResourcesBulk (map r_id (off_resources st)) w) else w)"
  have w1: "reg_resources (registry w1) = filter (\<lambda>r. r_id r \<notin> set (map r_id (off_resources st))) (reg_resources (registry w))"
           "reg_zones (registry w1) = reg_zones (registry w)"
    using deleteResourcesBulk_registry[of "map r_id (off_resources st)" w]
    by (auto simp: w1_def)
  obtain res w2 where d: "deleteDisaster zoneId w1 = (res, w2)" by (cases "deleteDisaster zoneId w1")
  have w2: "reg_resources (registry w2) = reg_resources (registry w1)"
     "filter (\<lambda>z. z_id z \<noteq> zoneId) (reg_zones (registry w2)) = filter (\<lambda>z. z_id z \<noteq> zoneId) (reg_zones (registry w1))"
    using deleteDisaster_registry[of zoneId w1] d by simp_all
  have "registry (snd (office_handleDeleteZone zoneId True st w)) = registry w2"
  proof (cases res)
    case (Inl e)
    with f d show ?thesis by (simp add: office_handleDeleteZone_def Let_def w1_def)
  next
    case (Inr u)
    with f d show ?thesis
      by (simp add: office_handleDeleteZone_def Let_def w1_def office_loadSimulationData_def
          fetchSimulationData_def send_def)
  qed
  then show ?thesis using w1 w2 by simp
qed

text \<open>
  C2, as amended. When a zone that the page lists is deleted, the cleanup deletes every
  resource of the page's snapshot from the Registry, whether or not it is tied to the
  zone; the resources outside the snapshot stay, and so does every other zone.
\<close>

theorem handleDeleteZone_removes_listed_resources:
  assumes "list_ex (\<lambda>z. z_id z = zoneId) (sim_zones st)"
      and "list_ex (\<lambda>z. z_id z = zoneId) (off_zones ost)"
  shows "reg_resources (registry (snd (sim_handleDeleteZone zoneId st w)))
           = filter (\<lambda>r. r_id r \<notin> set (map r_id (sim_resources st))) (reg_resources (registry w))
       \<and> filter (\<lambda>z. z_id z \<noteq> zoneId) (reg_zones (registry (snd (sim_handleDeleteZone zoneId st w))))
           = filter (\<lambda>z. z_id z \<noteq> zoneId) (reg_zones (registry w))
       \<and> reg_resources (registry (snd (office_handleDeleteZone zoneId True ost w)))
           = filter (\<lambda>r. r_id r \<notin> set (map r_id (off_resources ost))) (reg_resources (registry w))
       \<and> filter (\<lambda>z. z_id z \<noteq> zoneId) (reg_zones (registry (snd (office_handleDeleteZone zoneId True ost w))))
           = filter (\<lambda>z. z_id z \<noteq> zoneId) (reg_zones (registry w))"
proof -
  from assms(1) obtain z1 where "find (\<lambda>z. z_id z = zoneId) (sim_zones st) = Some z1"
    by (cases "find (\<lambda>z. z_id z = zoneId) (sim_zones st)") (auto simp: find_None_iff list_ex_iff)
  moreover from assms(2) obtain z2 where "find (\<lambda>z. z_id z = zoneId) (off_zones ost) = Some z2"
    by (cases "find (\<lambda>z. z_id z = zoneId) (off_zones ost)") (auto simp: find_None_iff list_ex_iff)
  ultimately show ?thesis
    using sim_handleDeleteZone_registry[of zoneId st z1 w] office_handleDeleteZone_registry[of zoneId ost z2 w]
    by simp
qed

text \<open>In the scenario, deleting the first zone empties the Registry of resources.\<close>

lemma ex_sim_delete: "reg_resources (registry (snd (sim_handleDeleteZone ''zone-1'' ex_sim ex_world))) = []"
  by (simp add: sim_handleDeleteZone_def ex_sim_def ex_world_def ex_zone1_def ex_zone2_def ex_res1_def ex_res2_def
      deleteResource_def registry_deleteResource_def deleteDisaster_def registry_deleteZone_def send_def
      sim_loadData_def fetchSimulationData_def Let_def)

lemma ex_office_delete: "reg_resources (registry (snd (office_handleDeleteZone ''zone-1'' True ex_office ex_world))) = []"
  by (simp add: office_handleDeleteZone_def ex_office_def ex_world_def ex_zone1_def ex_zone2_def ex_res1_def ex_res2_def
      deleteResourcesBulk_def registry_deleteResource_def deleteDisaster_def registry_deleteZone_def send_def
      office_loadSimulationData_def fetchSimulationData_def Let_def)

text \<open>
  C2, as stated, fails: the second ambulance is not tied to the first zone (the plan sends
  it to the second), and deleting the first zone removes it all the same, on both pages.
\<close>

theorem handleDeleteZone_removes_untied_resource:
  "\<not> tied_to_zone (Some ex_plan) ''zone-1'' ex_res2
   \<and> ex_res2 \<in> set (reg_resources (registry ex_world))
   \<and> ex_res2 \<notin> set (reg_resources (registry (snd (sim_handleDeleteZone ''zone-1'' ex_sim ex_world))))
   \<and> ex_res2 \<notin> set (reg_resources (registry (snd (office_handleDeleteZone ''zone-1'' True ex_office ex_world))))"
  by (simp add: ex_sim_delete ex_office_delete) (simp add: tied_to_zone_def ex_plan_def ex_res2_def ex_world_def)

theorem handleDeleteZone_removes_listed_resources_witness:
  "list_ex (\<lambda>z. z_id z = ''zone-1'') (sim_zones ex_sim)
   \<and> list_ex (\<lambda>z. z_id z = ''zone-1'') (off_zones ex_office)
   \<and> reg_resources (registry (snd (sim_handleDeleteZone ''zone-1'' ex_sim ex_world))) = []
   \<and> reg_resources (registry (snd (office_handleDeleteZone ''zone-1'' True ex_office ex_world))) = []
   \<and> filter (\<lambda>z. z_id z \<noteq> ''zone-1'') (reg_zones (registry (snd (sim_handleDeleteZone ''zone-1'' ex_sim ex_world)))) = [ex_zone2]"
proof -
  have h1: "list_ex (\<lambda>z. z_id z = ''zone-1'') (sim_zones ex_sim)"
    by (simp add: ex_sim_def ex_zone1_def)
  have h2: "list_ex (\<lambda>z. z_id z = ''zone-1'') (off_zones ex_office)"
    by (simp add: ex_office_def ex_zone1_def)
  show ?thesis
    using h1 h2 handleDeleteZone_removes_listed_resources[OF h1 h2, of ex_world]
    by (simp add: ex_sim_def ex_office_def ex_world_def ex_res1_def ex_res2_def ex_zone1_def ex_zone2_def)
qed

section \<open>Properties of the proximity distance\<close>

text \<open>
  C7. The distance of the proximity ranking is symmetric: the two directions differ by
  at most \<open>10\<^sup>-\<^sup>6\<close> km (they are equal, since only the squares of the coordinate
  differences enter).
\<close>

theorem proximity_km_symmetric:
  "\<bar>proximity_km a b - proximity_km b a\<bar> \<le> 1 / 10 ^ 6"
proof -
  have "proximity_km a b = proximity_km b a"
    by (simp add: proximity_km_def power2_commute)
  then show ?thesis by simp
qed

text \<open>
  The symmetry does not rest on exact arithmetic: it holds under every rounding that
  commutes with negation, as rounding to the nearest floating-point number does.
\<close>

lemma proximity_km_rounded_symmetric:
  assumes "\<And>x. rnd (- x) = - rnd x"
  shows "proximity_km_rounded rnd a b = proximity_km_rounded rnd b a"
proof -
  have "rnd (lat a - lat b) = - rnd (lat b - lat a)" using assms[of "lat b - lat a"] by simp
  moreover have "rnd (lng a - lng b) = - rnd (lng b - lng a)" using assms[of "lng b - lng a"] by simp
  ultimately show ?thesis by (simp add: proximity_km_rounded_def)
qed

lemma proximity_km_rounded_exact: "proximity_km_rounded (\<lambda>x. x) a b = proximity_km a b"
  by (simp add: proximity_km_rounded_def proximity_km_def)

text \<open>The ranking lists, nearest first, the resources under 200 km with this distance.\<close>

lemma nearby_ranked:
  "sorted (map snd (nearby resources zone))
   \<and> set (nearby resources zone)
       = {(r, proximity_km (r_location r) (z_location zone)) | r.
            r \<in> set resources \<and> proximity_km (r_location r) (z_location zone) < 200}"
  by (auto simp: nearby_def sorted_sort_key)






text \<open>Off the meridians the flat formula holds as well: it is the definition read back.\<close>

lemma proximity_km_formula:
  "proximity_km a b = 111 * sqrt ((lat a - lat b)\<^sup>2 + (lng a - lng b)\<^sup>2)"
  by (simp add: proximity_km_def)

section \<open>Properties of the planner\<close>

lemma nearest_in: "nearest d loc rs = Some r \<Longrightarrow> r \<in> set rs"
  by (induction rs arbitrary: r) (auto split: option.splits if_splits)

lemma remove_resource_ids:
  "set (map r_id (remove_resource r pool)) = set (map r_id pool) - {r_id r}"
  by (auto simp: remove_resource_def)

lemma alloc_inv_refl: "alloc_inv pool [] pool"
  by (simp add: alloc_inv_def)

lemma alloc_inv_trans:
  assumes "alloc_inv p0 a1 p1" and "alloc_inv p1 a2 p2"
  shows "alloc_inv p0 (a1 @ a2) p2"
proof -
  from assms(1) have d1: "distinct (map resource_id a1)"
    and x1: "set (map resource_id a1) \<inter> set (map r_id p1) = {}"
    and s1: "set (map resource_id a1) \<subseteq> set (map r_id p0)"
    and t1: "set (map r_id p1) \<subseteq> set (map r_id p0)"
    by (simp_all only: alloc_inv_def)
  from assms(2) have d2: "distinct (map resource_id a2)"
    and x2: "set (map resource_id a2) \<inter> set (map r_id p2) = {}"
    and s2: "set (map resource_id a2) \<subseteq> set (map r_id p1)"
    and t2: "set (map r_id p2) \<subseteq> set (map r_id p1)"
    by (simp_all only: alloc_inv_def)
  have "set (map resource_id a1) \<inter> set (map resource_id a2) = {}" using x1 s2 by blast
  with d1 d2 have "distinct (map resource_id (a1 @ a2))" by (simp only: map_append distinct_append)
  moreover have "set (map resource_id (a1 @ a2)) = set (map resource_id a1) \<union> set (map resource_id a2)"
    by simp
  moreover have "(set (map resource_id a1) \<union> set (map resource_id a2)) \<inter> set (map r_id p2) = {}"
    using x1 x2 t2 by blast
  moreover have "set (map resource_id a1) \<union> set (map resource_id a2) \<subseteq> set (map r_id p0)"
    using s1 s2 t1 by blast
  moreover have "set (map r_id p2) \<subseteq> set (map r_id p0)" using t1 t2 by blast
  ultimately show ?thesis by (simp only: alloc_inv_def)
qed

lemma alloc_inv_step:
  assumes r: "r \<in> set pool"
    and i: "alloc_inv (remove_resource r pool) as pool'" and a: "resource_id a = r_id r"
  shows "alloc_inv pool (a # as) pool'"
proof -
  have m: "r_id r \<in> set (map r_id pool)" using r by simp
  from i have d: "distinct (map resource_id as)"
    and x: "set (map resource_id as) \<inter> set (map r_id pool') = {}"
    and s1: "set (map resource_id as) \<subseteq> set (map r_id pool) - {r_id r}"
    and s2: "set (map r_id pool') \<subseteq> set (map r_id pool) - {r_id r}"
    by (simp_all only: alloc_inv_def remove_resource_ids)
  have n: "r_id r \<notin> set (map resource_id as)" using s1 by blast
  have e: "set (map resource_id (a # as)) = insert (r_id r) (set (map resource_id as))"
    using a by simp
  have "distinct (map resource_id (a # as))" using d n a by simp
  moreover note e
  moreover have "insert (r_id r) (set (map resource_id as)) \<inter> set (map r_id pool') = {}"
    using x s2 by blast
  moreover have "insert (r_id r) (set (map resource_id as)) \<subseteq> set (map r_id pool)"
    using s1 m by blast
  moreover have "set (map r_id pool') \<subseteq> set (map r_id pool)" using s2 by blast
  ultimately show ?thesis by (simp only: alloc_inv_def)
qed

lemma fill_slots_inv:
  "fill_slots P z t n pool = (as, pool', u) \<Longrightarrow> alloc_inv pool as pool'"
proof (induction n arbitrary: pool as pool' u)
  case 0
  then show ?case by (simp add: alloc_inv_refl)
next
  case (Suc n)
  show ?case
  proof (cases "nearest (pol_distance P) (z_location z) (filter (\<lambda>r. compatible r t) pool)")
    case None
    with Suc.prems show ?thesis by (simp add: alloc_inv_refl)
  next
    case (Some r)
    then have r: "r \<in> set pool" using nearest_in by fastforce
    show ?thesis
    proof (cases "eta (pol_distance P (r_location r) (z_location z)) (r_speed_kmh r)")
      case (Inl err)
      with Some Suc.prems show ?thesis by (simp add: alloc_inv_refl)
    next
      case (Inr e)
      show ?thesis
      proof (cases "exceeds (pol_max_eta P) e")
        case True
        with Some Inr Suc.prems show ?thesis by (simp add: alloc_inv_refl)
      next
        case False
        obtain as1 p1 u1 where f: "fill_slots P z t n (remove_resource r pool) = (as1, p1, u1)"
          by (cases "fill_slots P z t n (remove_resource r pool)") auto
        have i: "alloc_inv (remove_resource r pool) as1 p1" using Suc.IH f by blast
        from Some Inr False f Suc.prems
        have eq: "as = make_allocation P r z (pol_distance P (r_location r) (z_location z)) e # as1" "pool' = p1"
          by simp_all
        show ?thesis unfolding eq
          by (rule alloc_inv_step[OF r i]) (simp add: make_allocation_def)
      qed
    qed
  qed
qed

lemma serve_zone_inv:
  "serve_zone P z reqs pool = (as, pool', u) \<Longrightarrow> alloc_inv pool as pool'"
proof (induction reqs arbitrary: pool as pool' u)
  case Nil
  then show ?case by (simp add: alloc_inv_refl)
next
  case (Cons req reqs)
  obtain t n where req: "req = (t, n)" by (cases req)
  obtain as1 p1 u1 where f: "fill_slots P z t n pool = (as1, p1, u1)"
    by (cases "fill_slots P z t n pool") auto
  obtain as2 p2 u2 where s: "serve_zone P z reqs p1 = (as2, p2, u2)"
    by (cases "serve_zone P z reqs p1") auto
  have i1: "alloc_inv pool as1 p1" using fill_slots_inv[OF f] .
  have i2: "alloc_inv p1 as2 p2" using Cons.IH[OF s] .
  from Cons.prems req f s have "as = as1 @ as2" "pool' = p2" by simp_all
  then show ?case using alloc_inv_trans[OF i1 i2] by simp
qed

lemma plan_zones_inv:
  "plan_zones P zs pool = (as, pool', uns, sc) \<Longrightarrow> alloc_inv pool as pool'"
proof (induction zs arbitrary: pool as pool' uns sc)
  case Nil
  then show ?case by (simp add: alloc_inv_refl)
next
  case (Cons z zs)
  obtain as1 p1 u1 where f: "serve_zone P z (z_required_resources z) pool = (as1, p1, u1)"
    by (cases "serve_zone P z (z_required_resources z) pool") auto
  obtain as2 p2 uns2 sc2 where s: "plan_zones P zs p1 = (as2, p2, uns2, sc2)"
    by (cases "plan_zones P zs p1") auto
  have i1: "alloc_inv pool as1 p1" using serve_zone_inv[OF f] .
  have i2: "alloc_inv p1 as2 p2" using Cons.IH[OF s] .
  from Cons.prems f s have "as = as1 @ as2" "pool' = p2" by simp_all
  then show ?case using alloc_inv_trans[OF i1 i2] by simp
qed

text \<open>
  C1. In every plan that \<open>plan\<close> produces, each resource id appears in at most one
  allocation.
\<close>

theorem plan_no_double_allocation:
  "distinct (map resource_id (allocations (plan P elapsed_ms rationale resources zones)))"
proof -
  let ?pool = "filter (\<lambda>r. r_status r = ''Available'' \<and> \<not> malformed r) resources"
  obtain as p uns sc where z: "plan_zones P (sort_zones zones) ?pool = (as, p, uns, sc)"
    by (cases "plan_zones P (sort_zones zones) ?pool") auto
  have "alloc_inv ?pool as p" using z by (rule plan_zones_inv)
  then have "distinct (map resource_id as)" by (simp add: alloc_inv_def)
  moreover have "allocations (plan P elapsed_ms rationale resources zones) = as"
    using z by (simp add: plan_def)
  ultimately show ?thesis by simp
qed

text \<open>The allocated resources are among those listed as available.\<close>

lemma plan_allocates_listed_available:
  "set (map resource_id (allocations (plan P elapsed_ms rationale resources zones)))
     \<subseteq> set (map r_id (filter (\<lambda>r. r_status r = ''Available'') resources))"
proof -
  let ?pool = "filter (\<lambda>r. r_status r = ''Available'' \<and> \<not> malformed r) resources"
  obtain as p uns sc where z: "plan_zones P (sort_zones zones) ?pool = (as, p, uns, sc)"
    by (cases "plan_zones P (sort_zones zones) ?pool") auto
  have "alloc_inv ?pool as p" using z by (rule plan_zones_inv)
  then have "set (map resource_id as) \<subseteq> set (map r_id ?pool)" by (simp add: alloc_inv_def)
  moreover have "allocations (plan P elapsed_ms rationale resources zones) = as"
    using z by (simp add: plan_def)
  ultimately show ?thesis by auto
qed

text \<open>
  Scenario A: the ambulance at 5 km is assigned first, with an ETA of 5 minutes, and the
  one at 50 km fills the second slot, with an ETA of 50 minutes.
\<close>

lemma plan_scenario_A:
  "allocations (plan line_policy 1 None [ambulance_at ''far'' 50, ambulance_at ''near'' 5] [zone_needing 2])
   = [\<lparr>resource_id = ''near'', zone_id = ''zone-1'', eta_minutes = 5, distance_km = 5,
        explanation = ''Proximity: 5.0km''\<rparr>,
      \<lparr>resource_id = ''far'', zone_id = ''zone-1'', eta_minutes = 50, distance_km = 50,
        explanation = ''Proximity: 50.0km''\<rparr>]"
  by code_simp

text \<open>Scenario B: three units required and one available leave the zone unserved.\<close>

lemma plan_scenario_B:
  "unserved_zones (plan line_policy 1 None [ambulance_at ''near'' 5] [zone_needing 3]) = [''zone-1'']
   \<and> total_score (plan line_policy 1 None [ambulance_at ''near'' 5] [zone_needing 3]) = 9 * (1 / 3) - 18"
  by code_simp

text \<open>
  Two records with one id are one resource: it is allocated once, and the second slot
  stays unmet.
\<close>

lemma plan_repeated_id:
  "map resource_id (allocations (plan line_policy 1 None [ambulance_at ''a'' 5, ambulance_at ''a'' 50] [zone_needing 2]))
     = [''a'']
   \<and> unserved_zones (plan line_policy 1 None [ambulance_at ''a'' 5, ambulance_at ''a'' 50] [zone_needing 2])
     = [''zone-1'']"
  by code_simp

section \<open>Properties of the dispatch\<close>

text \<open>The coordinator counts every allocation of the plan, as committed or as dropped.\<close>

lemma commit_all_counts:
  "commit_all en_route as reg = (c, d, reg') \<Longrightarrow> c + d = length as"
proof (induction as arbitrary: reg c d reg')
  case Nil
  then show ?case by simp
next
  case (Cons a as)
  show ?case
  proof (cases "still_available reg a")
    case True
    obtain c1 d1 r1 where r: "commit_all en_route as (commit_allocation en_route a reg) = (c1, d1, r1)"
      by (cases "commit_all en_route as (commit_allocation en_route a reg)") auto
    with True Cons.prems have "c = Suc c1" "d = d1" by simp_all
    with Cons.IH[OF r] show ?thesis by simp
  next
    case False
    obtain c1 d1 r1 where r: "commit_all en_route as reg = (c1, d1, r1)"
      by (cases "commit_all en_route as reg") auto
    with False Cons.prems have "c = c1" "d = Suc d1" by simp_all
    with Cons.IH[OF r] show ?thesis by simp
  qed
qed












end
